theory Spec2Isabelle
  imports Main
begin

section \<open>The inline completions model of the editor\<close>

text \<open>
  The development embeds \<^verbatim>\<open>InlineCompletionsModel\<close>
  (\<^verbatim>\<open>src/vs/editor/contrib/inlineCompletions/browser/inlineCompletionsModel.ts\<close>).
  A JavaScript string is the list of its UTF-16 code units; JavaScript numbers that hold
  line numbers, columns and indices are \<^typ>\<open>int\<close>, so that the subtractions of the
  source keep their sign. A thrown exception is a value of type \<open>error\<close>. The model's own
  fields live in a record that is passed through every method; calls into the editor, the
  completion source, the provider and the command service are appended, in program order,
  to the \<open>trace\<close> of that record.
\<close>

subsection \<open>Strings\<close>

text \<open>
  A code unit is a number below \<open>65536\<close>. \<open>js\<close> writes a string of code units below
  \<open>256\<close> with the characters of these code points. The three labels that the model passes
  to the editor (\<^verbatim>\<open>'inlineSuggestion.accept'\<close> and the two sources of a cursor change) are
  literals of the program and stay Isabelle strings.
\<close>

type_synonym codeUnit = nat

type_synonym jsString = "codeUnit list"

definition js :: "string \<Rightarrow> jsString" where
  "js s = map of_char s"

text \<open>
  \<^verbatim>\<open>String.prototype.substring(start, end)\<close> of the language: both indices are clamped
  into \<open>[0, length]\<close> and swapped when the first exceeds the second.
\<close>

definition substring :: "jsString \<Rightarrow> int \<Rightarrow> int \<Rightarrow> jsString" where
  "substring s start end' =
     (let len = int (length s);
          a = max 0 (min start len);
          b = max 0 (min end' len);
          lo = min a b;
          hi = max a b
      in take (nat (hi - lo)) (drop (nat lo) s))"

text \<open>\<^verbatim>\<open>substring(start)\<close>: the end defaults to the length of the string.\<close>

definition substringFrom :: "jsString \<Rightarrow> int \<Rightarrow> jsString" where
  "substringFrom s start = substring s start (int (length s))"

text \<open>
  Modelled from the spec: \<^verbatim>\<open>commonPrefixLength\<close> of \<^verbatim>\<open>vs/base/common/strings\<close> is
  imported by the model but is not among the sources. The specification (4.4, step 2) has it
  "compute the longest common prefix" of its two arguments; the function returns the length
  of that prefix.
\<close>

fun commonPrefixLength :: "jsString \<Rightarrow> jsString \<Rightarrow> nat" where
  "commonPrefixLength (a # as) (b # bs) = (if a = b then Suc (commonPrefixLength as bs) else 0)"
| "commonPrefixLength _ _ = 0"

subsection \<open>Positions, ranges, selections and edits\<close>

text \<open>
  Modelled from the spec: \<^verbatim>\<open>Position\<close>, \<^verbatim>\<open>Range\<close>, \<^verbatim>\<open>Selection\<close> and
  \<^verbatim>\<open>SingleTextEdit\<close> are imported by the model but are not among the sources. They are
  plain data here: a position is a line number and a column, a range is its start and end
  position ("range in the document it replaces"), a selection is its anchor and its cursor
  position, and an edit is a range with its replacement text ("(range, replacement text)
  operations").
\<close>

record position =
  lineNumber :: int
  column :: int

record range =
  startLineNumber :: int
  startColumn :: int
  endLineNumber :: int
  endColumn :: int

record selection =
  selectionStartLineNumber :: int
  selectionStartColumn :: int
  positionLineNumber :: int
  positionColumn :: int

record singleTextEdit =
  edit_range :: range
  edit_text :: jsString

text \<open>\<^verbatim>\<open>new Position(l, c)\<close>.\<close>

definition Position :: "int \<Rightarrow> int \<Rightarrow> position" where
  "Position l c = \<lparr>lineNumber = l, column = c\<rparr>"

text \<open>\<^verbatim>\<open>pos.delta(deltaLineNumber, deltaColumn)\<close>.\<close>

definition delta :: "position \<Rightarrow> int \<Rightarrow> int \<Rightarrow> position" where
  "delta pos dl dc = Position (lineNumber pos + dl) (column pos + dc)"

text \<open>\<^verbatim>\<open>Range.fromPositions(start, end)\<close>.\<close>

definition fromPositions :: "position \<Rightarrow> position \<Rightarrow> range" where
  "fromPositions s e =
     \<lparr>startLineNumber = lineNumber s, startColumn = column s,
      endLineNumber = lineNumber e, endColumn = column e\<rparr>"

text \<open>\<^verbatim>\<open>range.getStartPosition()\<close> and \<^verbatim>\<open>range.getEndPosition()\<close>.\<close>

definition getStartPosition :: "range \<Rightarrow> position" where
  "getStartPosition r = Position (startLineNumber r) (startColumn r)"

definition getEndPosition :: "range \<Rightarrow> position" where
  "getEndPosition r = Position (endLineNumber r) (endColumn r)"

text \<open>\<^verbatim>\<open>selection.getPosition()\<close>: the cursor of the selection.\<close>

definition getPosition :: "selection \<Rightarrow> position" where
  "getPosition s = Position (positionLineNumber s) (positionColumn s)"

text \<open>\<^verbatim>\<open>new SingleTextEdit(range, text)\<close>.\<close>

definition SingleTextEdit :: "range \<Rightarrow> jsString \<Rightarrow> singleTextEdit" where
  "SingleTextEdit r t = \<lparr>edit_range = r, edit_text = t\<rparr>"

subsection \<open>Errors and the text model\<close>

text \<open>
  \<open>BugIndicatingError\<close> is thrown by the model itself; \<open>TypeError\<close> is what the language
  raises when a property of \<^verbatim>\<open>undefined\<close> is read; \<open>ModelError\<close> stands for any
  exception raised inside the text model.
\<close>

datatype error = BugIndicatingError | TypeError | ModelError

text \<open>
  \<^verbatim>\<open>ITextModel\<close> is an interface of the editor; the text model is given by its object
  identity and by its \<^verbatim>\<open>getLineContent\<close>, which may throw.
\<close>

record textModel =
  model_id :: nat
  getLineContent :: "int \<Rightarrow> error + jsString"

subsection \<open>Edits for all cursors\<close>

text \<open>
  The body of the \<^verbatim>\<open>secondaryPositions.map(pos => ...)\<close> callback of \<^verbatim>\<open>_getEdits\<close>.
\<close>

definition secondaryEdit :: "textModel \<Rightarrow> jsString \<Rightarrow> jsString \<Rightarrow> position \<Rightarrow> error + singleTextEdit" where
  "secondaryEdit tm replacedTextAfterPrimaryCursor secondaryEditText pos =
     (case getLineContent tm (lineNumber pos) of
        Inl e \<Rightarrow> Inl e
      | Inr line \<Rightarrow>
          (let textAfterSecondaryCursor = substringFrom line (column pos - 1);
               l = commonPrefixLength replacedTextAfterPrimaryCursor textAfterSecondaryCursor;
               r = fromPositions pos (delta pos 0 (int l))
           in Inr (SingleTextEdit r secondaryEditText)))"

text \<open>The \<^verbatim>\<open>map\<close> over the secondary positions; the first exception ends it.\<close>

fun secondaryEdits :: "textModel \<Rightarrow> jsString \<Rightarrow> jsString \<Rightarrow> position list \<Rightarrow> error + singleTextEdit list" where
  "secondaryEdits tm rep txt [] = Inr []"
| "secondaryEdits tm rep txt (pos # ps) =
     (case secondaryEdit tm rep txt pos of
        Inl e \<Rightarrow> Inl e
      | Inr ed \<Rightarrow>
          (case secondaryEdits tm rep txt ps of
             Inl e \<Rightarrow> Inl e
           | Inr eds \<Rightarrow> Inr (ed # eds)))"

text \<open>
  \<^verbatim>\<open>_getEdits(textModel, selections, completion)\<close>. Its callers pass
  \<^verbatim>\<open>this.textModel\<close>, so the parameter and the field that the callback reads are the
  same text model. With no selection, \<^verbatim>\<open>selections[0].getPosition()\<close> raises a
  \<open>TypeError\<close>. The selections that follow the
  edits are computed from \<open>edits\<close> alone, through \<^verbatim>\<open>Permutation\<close> and \<^verbatim>\<open>getNewRanges\<close>
  of \<^verbatim>\<open>utils.ts\<close>, which are not among the sources: that computation is the parameter
  \<open>selectionsAfter\<close>.
\<close>

definition getEdits ::
  "(singleTextEdit list \<Rightarrow> selection list) \<Rightarrow> textModel \<Rightarrow> selection list \<Rightarrow> singleTextEdit
     \<Rightarrow> error + (singleTextEdit list \<times> selection list)" where
  "getEdits selectionsAfter tm selections completion =
     (case selections of
        [] \<Rightarrow> Inl TypeError
      | s0 # rest \<Rightarrow>
          (let secondaryPositions = map getPosition rest;
               primaryPosition = getPosition s0
           in case getLineContent tm (lineNumber primaryPosition) of
                Inl e \<Rightarrow> Inl e
              | Inr line \<Rightarrow>
                  (let replacedTextAfterPrimaryCursor =
                         substring line (column primaryPosition - 1)
                           (endColumn (edit_range completion) - 1);
                       secondaryEditText =
                         substringFrom (edit_text completion)
                           (column primaryPosition - startColumn (edit_range completion))
                   in case secondaryEdits tm replacedTextAfterPrimaryCursor secondaryEditText
                             secondaryPositions of
                        Inl e \<Rightarrow> Inl e
                      | Inr secondary \<Rightarrow>
                          (let edits =
                                 SingleTextEdit (edit_range completion) (edit_text completion)
                                   # secondary
                           in Inr (edits, selectionsAfter edits)))))"

subsection \<open>Candidates, ghost text and the derived state\<close>

text \<open>
  The classes of this subsection are imported by the model; the records hold the members
  that the model reads. \<open>arguments\<close> is \<open>None\<close> for \<^verbatim>\<open>undefined\<close>. An operation of
  \<^verbatim>\<open>executeEdits\<close> is an \<open>editOperation\<close>; \<^verbatim>\<open>EditOperation.replaceMove\<close> builds
  one that forces the markers to move.
\<close>

record command =
  command_id :: jsString
  arguments :: "jsString list option"

record snippetInfo =
  snippet :: jsString
  snippet_range :: range

record editOperation =
  op_range :: range
  op_text :: jsString
  forceMoveMarkers :: bool

definition replaceMove :: "range \<Rightarrow> jsString \<Rightarrow> editOperation" where
  "replaceMove r t = \<lparr>op_range = r, op_text = t, forceMoveMarkers = True\<rparr>"

text \<open>
  \<^verbatim>\<open>InlineCompletionList\<close>, the batch a candidate comes from: its object identity, and
  whether its provider defines the optional \<^verbatim>\<open>handlePartialAccept\<close>.
\<close>

record inlineCompletionList =
  list_id :: nat
  hasHandlePartialAccept :: bool

record inlineCompletionItem =
  filterText :: jsString
  ic_command :: "command option"
  ic_range :: range
  insertText :: jsString
  snippetInfo :: "snippetInfo option"
  additionalTextEdits :: "editOperation list"
  sourceInlineCompletion :: nat
  source :: inlineCompletionList

text \<open>
  Modelled from the spec: \<^verbatim>\<open>toSingleTextEdit()\<close> of a candidate is not among the sources;
  the primary edit is "the candidate's range and text" (4.4, step 1).
\<close>

definition toSingleTextEdit :: "inlineCompletionItem \<Rightarrow> singleTextEdit" where
  "toSingleTextEdit c = SingleTextEdit (ic_range c) (insertText c)"

text \<open>
  \<^verbatim>\<open>InlineCompletionWithUpdatedRange\<close>: its semantic id, and the item that
  \<^verbatim>\<open>toInlineCompletion(undefined)\<close> returns.
\<close>

record inlineCompletionWithUpdatedRange =
  semanticId :: jsString
  toInlineCompletion :: inlineCompletionItem

text \<open>
  \<^verbatim>\<open>GhostTextOrReplacement\<close>: its line, its parts, and the result of its \<^verbatim>\<open>isEmpty()\<close>.
\<close>

record ghostTextPart =
  part_column :: int
  part_text :: jsString

record ghostText =
  gt_lineNumber :: int
  parts :: "ghostTextPart list"
  isEmpty :: bool

text \<open>
  The value of the derived \<^verbatim>\<open>state\<close>; \<open>None\<close> is \<^verbatim>\<open>undefined\<close>. The suggest item is
  given by the edit that its \<^verbatim>\<open>toSingleTextEdit()\<close> returns. The source declares
  \<^verbatim>\<open>primaryGhostText\<close> as a ghost text and assigns \<^verbatim>\<open>ghostTexts[0]\<close> to it, which is
  \<^verbatim>\<open>undefined\<close> when there is no ghost text: the field is an option.
\<close>

record derivedState =
  suggestItem :: "singleTextEdit option"
  inlineCompletion :: "inlineCompletionWithUpdatedRange option"
  primaryGhostText :: "ghostText option"
  ghostTexts :: "ghostText list"
  edits :: "singleTextEdit list"
  editorSelections :: "selection list"

subsection \<open>The model, its collaborators and their calls\<close>

text \<open>
  The writes that the model batches into one transaction, and the calls it makes on its
  collaborators. \<open>AddRef\<close> and \<open>RemoveRef\<close> carry the identity of the batch;
  \<open>HandlePartialAccept\<close> carries the batch, the provider's item and the length passed.
\<close>

datatype txWrite = SourceClear | IsActiveSet bool | ForceUpdateExplicit

datatype event =
    PushUndoStop
  | ExecuteEdits string "editOperation list"
  | SetPosition position string
  | SetSelections "selection list" string
  | SnippetInsert jsString
  | AddRef nat
  | RemoveRef nat
  | Transaction "txWrite list"
  | Fetch
  | ExecuteCommand jsString "jsString list"
  | OnUnexpectedExternalError
  | HandlePartialAccept nat nat nat

text \<open>
  The editor: the identity of the attached model (\<open>None\<close> for \<^verbatim>\<open>null\<close>), whether
  \<^verbatim>\<open>SnippetController2.get(editor)\<close> is defined, and the text that the attached model
  returns for a range, with \<^verbatim>\<open>\n\<close> line ends, after the calls made so far.
\<close>

record editor =
  getModel :: "nat option"
  hasSnippetController :: bool
  getValueInRange :: "event list \<Rightarrow> range \<Rightarrow> jsString"

text \<open>
  What the model is constructed with, and the helpers it imports that are not among the
  sources: the text model; the current value of \<^verbatim>\<open>_selections\<close>; the computation of the
  selections after a list of edits (see \<open>getEdits\<close>); whether the promise of
  \<^verbatim>\<open>executeCommand\<close> is fulfilled; the first match of the word definition of the
  language at a position, as its index and the matched text; \<^verbatim>\<open>addPositions\<close> and
  \<^verbatim>\<open>lengthOfText\<close> of \<^verbatim>\<open>utils.ts\<close>.
\<close>

record env =
  textModel :: textModel
  selections :: "selection list"
  selectionsAfter :: "singleTextEdit list \<Rightarrow> selection list"
  commandFulfilled :: "jsString \<Rightarrow> jsString list \<Rightarrow> bool"
  wordDefinition :: "position \<Rightarrow> jsString \<Rightarrow> (nat \<times> jsString) option"
  addPositions :: "position \<Rightarrow> position \<Rightarrow> position"
  lengthOfText :: "jsString \<Rightarrow> position"

text \<open>The mutable fields of the model, and the calls made so far.\<close>

record model =
  isActive :: bool
  selectedInlineCompletionId :: "jsString option"
  isAcceptingPartially :: bool
  trace :: "event list"

definition emit :: "event list \<Rightarrow> model \<Rightarrow> model" where
  "emit es m = m\<lparr>trace := trace m @ es\<rparr>"

subsection \<open>Selection by semantic id\<close>

text \<open>\<^verbatim>\<open>Array.prototype.findIndex\<close>: the first index that satisfies the predicate, or \<open>-1\<close>.\<close>

fun findIndex :: "('a \<Rightarrow> bool) \<Rightarrow> 'a list \<Rightarrow> int" where
  "findIndex P [] = - 1"
| "findIndex P (x # xs) =
     (if P x then 0 else (let r = findIndex P xs in if r = - 1 then - 1 else r + 1))"

text \<open>\<^verbatim>\<open>arr[i]\<close>: \<^verbatim>\<open>undefined\<close> out of range.\<close>

definition at_index :: "'a list \<Rightarrow> int \<Rightarrow> 'a option" where
  "at_index xs i = (if 0 \<le> i \<and> i < int (length xs) then Some (xs ! nat i) else None)"

text \<open>
  \<^verbatim>\<open>selectedInlineCompletionIndex\<close>. The source tests
  \<^verbatim>\<open>this._selectedInlineCompletionId === undefined\<close> on the observable object itself, which
  is never \<^verbatim>\<open>undefined\<close>, so the test is \<open>False\<close> and \<^verbatim>\<open>findIndex\<close> always runs; a
  semantic id is a string and never equals the stored \<^verbatim>\<open>undefined\<close>.
\<close>

definition selectedInlineCompletionIndex ::
  "inlineCompletionWithUpdatedRange list \<Rightarrow> model \<Rightarrow> int \<times> model" where
  "selectedInlineCompletionIndex filteredCompletions m =
     (let selectedId = selectedInlineCompletionId m;
          idx = (if False then - 1
                 else findIndex (\<lambda>v. Some (semanticId v) = selectedId) filteredCompletions)
      in if idx = - 1 then (0, m\<lparr>selectedInlineCompletionId := None\<rparr>) else (idx, m))"

text \<open>\<^verbatim>\<open>selectedInlineCompletion\<close>: \<^verbatim>\<open>filteredCompletions[idx]\<close>.\<close>

definition selectedInlineCompletion ::
  "inlineCompletionWithUpdatedRange list \<Rightarrow> model \<Rightarrow> inlineCompletionWithUpdatedRange option \<times> model" where
  "selectedInlineCompletion filteredCompletions m =
     (let (idx, m') = selectedInlineCompletionIndex filteredCompletions m
      in (at_index filteredCompletions idx, m'))"

text \<open>The remainder operator \<^verbatim>\<open>%\<close> of the language, which truncates towards zero.\<close>

definition js_rem :: "int \<Rightarrow> int \<Rightarrow> int" where
  "js_rem a b = sgn a * (\<bar>a\<bar> mod \<bar>b\<bar>)"

text \<open>\<^verbatim>\<open>triggerExplicitly()\<close>: one transaction, then the fetch is awaited.\<close>

definition triggerExplicitly :: "model \<Rightarrow> model" where
  "triggerExplicitly m =
     emit [Fetch] ((emit [Transaction [IsActiveSet True, ForceUpdateExplicit]] m)\<lparr>isActive := True\<rparr>)"

text \<open>
  \<^verbatim>\<open>_deltaSelectedInlineCompletionIndex(delta)\<close>. \<open>completions\<close> is the value of
  \<^verbatim>\<open>_filteredInlineCompletionItems\<close> once the fetch has settled.
\<close>

definition deltaSelectedInlineCompletionIndex ::
  "int \<Rightarrow> inlineCompletionWithUpdatedRange list \<Rightarrow> model \<Rightarrow> error option \<times> model" where
  "deltaSelectedInlineCompletionIndex d completions m =
     (let m1 = triggerExplicitly m
      in if length completions > 0 then
           (let (idx, m2) = selectedInlineCompletionIndex completions m1;
                newIdx = js_rem (idx + d + int (length completions)) (int (length completions))
            in case at_index completions newIdx of
                 None \<Rightarrow> (Some TypeError, m2)
               | Some c \<Rightarrow> (None, m2\<lparr>selectedInlineCompletionId := Some (semanticId c)\<rparr>))
         else (None, m1\<lparr>selectedInlineCompletionId := None\<rparr>))"

text \<open>\<^verbatim>\<open>next()\<close> and \<^verbatim>\<open>previous()\<close>.\<close>

definition next_completion :: "inlineCompletionWithUpdatedRange list \<Rightarrow> model \<Rightarrow> error option \<times> model" where
  "next_completion completions m = deltaSelectedInlineCompletionIndex 1 completions m"

definition previous_completion :: "inlineCompletionWithUpdatedRange list \<Rightarrow> model \<Rightarrow> error option \<times> model" where
  "previous_completion completions m = deltaSelectedInlineCompletionIndex (- 1) completions m"

subsection \<open>The derived state\<close>

text \<open>
  What the derived \<^verbatim>\<open>state\<close> reads besides the fields of the model: the edit of the
  selected suggest item (\<open>None\<close> without one), the candidates of the suggest widget batch of
  the source (\<open>None\<close> without one), the filtered candidates, the three settings, and the
  methods of \<^verbatim>\<open>SingleTextEdit\<close> and the constructor of \<^verbatim>\<open>GhostText\<close>, which are not
  among the sources. \<open>removeCommonPrefix\<close> and \<open>computeGhostText\<close> are for the text model
  of this model; their last argument is optional in the source.
\<close>

datatype suggestMode = ModePrefix | ModeSubword | ModeSubwordSmart

record stateReads =
  selectedSuggestItem :: "singleTextEdit option"
  suggestWidgetInlineCompletions :: "inlineCompletionWithUpdatedRange list option"
  filteredInlineCompletionItems :: "inlineCompletionWithUpdatedRange list"
  suggestPreviewEnabled :: bool
  suggestPreviewMode :: suggestMode
  inlineSuggestMode :: suggestMode
  removeCommonPrefix :: "singleTextEdit \<Rightarrow> range option \<Rightarrow> singleTextEdit"
  augments :: "singleTextEdit \<Rightarrow> singleTextEdit \<Rightarrow> bool"
  computeGhostText :: "singleTextEdit \<Rightarrow> suggestMode \<Rightarrow> position \<Rightarrow> int option \<Rightarrow> ghostText option"
  newGhostText :: "int \<Rightarrow> ghostTextPart list \<Rightarrow> ghostText"

text \<open>
  Modelled from the spec: \<^verbatim>\<open>mapFindFirst\<close> of \<^verbatim>\<open>vs/base/common/arraysFind\<close> is not among
  the sources; the first candidate that augments is taken ("first match wins", 9).
\<close>

fun mapFindFirst :: "'a list \<Rightarrow> ('a \<Rightarrow> 'b option) \<Rightarrow> 'b option" where
  "mapFindFirst [] f = None"
| "mapFindFirst (x # xs) f = (case f x of Some y \<Rightarrow> Some y | None \<Rightarrow> mapFindFirst xs f)"

text \<open>
  \<^verbatim>\<open>_computeAugmentedCompletion(suggestCompletion, reader)\<close>. Reading
  \<^verbatim>\<open>selectedInlineCompletion\<close> may reset the stored semantic id.
\<close>

definition computeAugmentedCompletion ::
  "stateReads \<Rightarrow> singleTextEdit \<Rightarrow> model
     \<Rightarrow> (singleTextEdit \<times> inlineCompletionWithUpdatedRange) option \<times> model" where
  "computeAugmentedCompletion rd suggestCompletion m =
     (let (candidateInlineCompletions, m') =
            (case suggestWidgetInlineCompletions rd of
               Some cs \<Rightarrow> (cs, m)
             | None \<Rightarrow>
                 (case selectedInlineCompletion (filteredInlineCompletionItems rd) m of
                    (Some c, m1) \<Rightarrow> ([c], m1)
                  | (None, m1) \<Rightarrow> ([], m1)))
      in (mapFindFirst candidateInlineCompletions
            (\<lambda>completion.
               let r = toSingleTextEdit (toInlineCompletion completion);
                   r' = removeCommonPrefix rd r
                          (Some (fromPositions (getStartPosition (edit_range r))
                                   (getEndPosition (edit_range suggestCompletion))))
               in if augments rd r' suggestCompletion then Some (r', completion) else None),
          m'))"

text \<open>
  The loop over \<^verbatim>\<open>edits.entries()\<close> of the branch with a suggest item: the edit without a
  ghost text gets an invisible one. \<^verbatim>\<open>selections[index].getPosition()\<close> raises a
  \<open>TypeError\<close> when there are fewer selections than edits.
\<close>

fun ghostTextsOfSuggestion ::
  "stateReads \<Rightarrow> suggestMode \<Rightarrow> int \<Rightarrow> singleTextEdit list \<Rightarrow> selection list \<Rightarrow> error + ghostText list" where
  "ghostTextsOfSuggestion rd mode n [] sels = Inr []"
| "ghostTextsOfSuggestion rd mode n (edit # es) [] = Inl TypeError"
| "ghostTextsOfSuggestion rd mode n (edit # es) (s # ss) =
     (let g = (case computeGhostText rd edit mode (getPosition s) (Some n) of
                 Some newGhost \<Rightarrow> newGhost
               | None \<Rightarrow> newGhostText rd (endLineNumber (edit_range edit)) [])
      in case ghostTextsOfSuggestion rd mode n es ss of
           Inl e \<Rightarrow> Inl e
         | Inr gs \<Rightarrow> Inr (g # gs))"

text \<open>
  The loop of the branch without a suggest item: the first edit without a ghost text makes
  the state \<^verbatim>\<open>undefined\<close> (\<open>Inr None\<close>).
\<close>

fun ghostTextsOfCompletion ::
  "stateReads \<Rightarrow> suggestMode \<Rightarrow> singleTextEdit list \<Rightarrow> selection list
     \<Rightarrow> error + ghostText list option" where
  "ghostTextsOfCompletion rd mode [] sels = Inr (Some [])"
| "ghostTextsOfCompletion rd mode (edit # es) [] = Inl TypeError"
| "ghostTextsOfCompletion rd mode (edit # es) (s # ss) =
     (case computeGhostText rd edit mode (getPosition s) None of
        None \<Rightarrow> Inr None
      | Some g \<Rightarrow>
          (case ghostTextsOfCompletion rd mode es ss of
             Inl e \<Rightarrow> Inl e
           | Inr None \<Rightarrow> Inr None
           | Inr (Some gs) \<Rightarrow> Inr (Some (g # gs))))"

text \<open>
  The derived \<^verbatim>\<open>state\<close> (lines 201 to 270): the exception that ends the computation or
  its value, and the model after it.
\<close>

definition state_of :: "env \<Rightarrow> stateReads \<Rightarrow> model \<Rightarrow> (error + derivedState option) \<times> model" where
  "state_of env rd m =
     (case selectedSuggestItem rd of
        Some item \<Rightarrow>
          (let suggestCompletion = removeCommonPrefix rd item None;
               (augmentedCompletion, m1) = computeAugmentedCompletion rd suggestCompletion m
           in if \<not> suggestPreviewEnabled rd \<and> augmentedCompletion = None then (Inr None, m1)
              else
                (let inlineCompletion = map_option snd augmentedCompletion;
                     editPreviewLength =
                       (case augmentedCompletion of
                          Some (edit, c) \<Rightarrow>
                            int (length (edit_text edit))
                              - int (length (edit_text suggestCompletion))
                        | None \<Rightarrow> 0);
                     mode = suggestPreviewMode rd
                 in case (case inlineCompletion of
                            Some ic \<Rightarrow>
                              getEdits (selectionsAfter env) (textModel env) (selections env)
                                (toSingleTextEdit (toInlineCompletion ic))
                          | None \<Rightarrow> Inr ([], [])) of
                      Inl e \<Rightarrow> (Inl e, m1)
                    | Inr (eds, sels) \<Rightarrow>
                        (case ghostTextsOfSuggestion rd mode editPreviewLength eds
                                (selections env) of
                           Inl e \<Rightarrow> (Inl e, m1)
                         | Inr gs \<Rightarrow>
                             (Inr (Some \<lparr>suggestItem = Some item,
                                         inlineCompletion = inlineCompletion,
                                         primaryGhostText = at_index gs 0,
                                         ghostTexts = gs,
                                         edits = eds,
                                         editorSelections = sels\<rparr>), m1))))
      | None \<Rightarrow>
          if \<not> isActive m then (Inr None, m)
          else
            (case selectedInlineCompletion (filteredInlineCompletionItems rd) m of
               (None, m1) \<Rightarrow> (Inr None, m1)
             | (Some ic, m1) \<Rightarrow>
                 (case getEdits (selectionsAfter env) (textModel env) (selections env)
                         (toSingleTextEdit (toInlineCompletion ic)) of
                    Inl e \<Rightarrow> (Inl e, m1)
                  | Inr (eds, sels) \<Rightarrow>
                      (case ghostTextsOfCompletion rd (inlineSuggestMode rd) eds
                              (selections env) of
                         Inl e \<Rightarrow> (Inl e, m1)
                       | Inr None \<Rightarrow> (Inr None, m1)
                       | Inr (Some gs) \<Rightarrow>
                           (Inr (Some \<lparr>suggestItem = None,
                                       inlineCompletion = Some ic,
                                       primaryGhostText = at_index gs 0,
                                       ghostTexts = gs,
                                       edits = eds,
                                       editorSelections = sels\<rparr>), m1)))))"

subsection \<open>Accepting a completion\<close>

text \<open>
  \<^verbatim>\<open>accept(editor)\<close> has one \<^verbatim>\<open>await\<close>, on the promise of the command. \<open>acceptStart\<close>
  is the method up to there: the exception that ends it, if any, the model, and the command
  that has been started and has not settled, with its candidate. \<^verbatim>\<open>this.state.get()\<close>
  is the argument \<open>st\<close>. Reading \<^verbatim>\<open>isEmpty\<close> of an \<^verbatim>\<open>undefined\<close> primary ghost text
  raises a \<open>TypeError\<close>.
\<close>

definition acceptStart ::
  "env \<Rightarrow> editor \<Rightarrow> derivedState option \<Rightarrow> model
     \<Rightarrow> error option \<times> model \<times> (command \<times> inlineCompletionItem) option" where
  "acceptStart env ed st m =
     (if getModel ed \<noteq> Some (model_id (textModel env)) then (Some BugIndicatingError, m, None)
      else case st of
        None \<Rightarrow> (None, m, None)
      | Some s \<Rightarrow>
          (case primaryGhostText s of
             None \<Rightarrow> (Some TypeError, m, None)
           | Some g \<Rightarrow>
               if isEmpty g then (None, m, None)
               else case inlineCompletion s of
                 None \<Rightarrow> (None, m, None)
               | Some ic \<Rightarrow>
                   (let completion = toInlineCompletion ic;
                        m1 = emit [PushUndoStop] m;
                        m2 = (case snippetInfo completion of
                                Some si \<Rightarrow>
                                  emit ([ExecuteEdits ''inlineSuggestion.accept''
                                           (replaceMove (ic_range completion) []
                                              # additionalTextEdits completion),
                                         SetPosition (getStartPosition (snippet_range si))
                                           ''inlineCompletionAccept'']
                                        @ (if hasSnippetController ed
                                           then [SnippetInsert (snippet si)] else [])) m1
                              | None \<Rightarrow>
                                  emit [ExecuteEdits ''inlineSuggestion.accept''
                                          (map (\<lambda>e. replaceMove (edit_range e) (edit_text e))
                                             (edits s)
                                           @ additionalTextEdits completion),
                                        SetSelections (editorSelections s)
                                          ''inlineCompletionAccept'']
                                    m1);
                        m3 = (case ic_command completion of
                                Some c \<Rightarrow> emit [AddRef (list_id (source completion))] m2
                              | None \<Rightarrow> m2);
                        m4 = (emit [Transaction [SourceClear, IsActiveSet False]] m3)
                               \<lparr>isActive := False\<rparr>
                    in case ic_command completion of
                         None \<Rightarrow> (None, m4, None)
                       | Some c \<Rightarrow>
                           (let args = (case arguments c of Some a \<Rightarrow> a | None \<Rightarrow> [])
                            in (None, emit [ExecuteCommand (command_id c) args] m4,
                                Some (c, completion))))))"

text \<open>
  What \<^verbatim>\<open>accept\<close> does once the command has settled: a rejection goes to
  \<^verbatim>\<open>onUnexpectedExternalError\<close>, then the reference is released.
\<close>

definition acceptFinish :: "env \<Rightarrow> command \<Rightarrow> inlineCompletionItem \<Rightarrow> model \<Rightarrow> model" where
  "acceptFinish env c completion m =
     (let args = (case arguments c of Some a \<Rightarrow> a | None \<Rightarrow> []);
          m6 = (if commandFulfilled env (command_id c) args then m
                else emit [OnUnexpectedExternalError] m)
      in emit [RemoveRef (list_id (source completion))] m6)"

text \<open>
  The outcome of a call and the model once a pending command, if there is one, has
  settled.
\<close>

definition settle ::
  "env \<Rightarrow> error option \<times> model \<times> (command \<times> inlineCompletionItem) option
     \<Rightarrow> error option \<times> model" where
  "settle env r =
     (case r of
        (e, m, None) \<Rightarrow> (e, m)
      | (e, m, Some (c, completion)) \<Rightarrow> (e, acceptFinish env c completion m))"

text \<open>
  \<^verbatim>\<open>accept(editor)\<close>, awaited: the exception that ends the call, if any, and the model
  when its promise settles.
\<close>

definition accept :: "env \<Rightarrow> editor \<Rightarrow> derivedState option \<Rightarrow> model \<Rightarrow> error option \<times> model" where
  "accept env ed st m = settle env (acceptStart env ed st m)"

text \<open>
  \<^verbatim>\<open>_acceptNext(editor, getAcceptUntilIndex)\<close>: the exception that ends the call, if any,
  the model when its promise settles, and the command that is still pending then. The first
  call of \<^verbatim>\<open>accept\<close> (line 431) is awaited. The second (line 441) is not: the call
  returns when \<^verbatim>\<open>accept\<close> reaches its \<^verbatim>\<open>await\<close>, with the command pending, and nothing
  that \<^verbatim>\<open>accept\<close> throws reaches the caller. With no part, \<^verbatim>\<open>firstPart.column\<close> raises
  a \<open>TypeError\<close>. The two \<^verbatim>\<open>finally\<close> blocks run when \<^verbatim>\<open>_getEdits\<close> throws.
\<close>

definition acceptNext ::
  "env \<Rightarrow> editor \<Rightarrow> (position \<Rightarrow> jsString \<Rightarrow> int) \<Rightarrow> derivedState option \<Rightarrow> model
     \<Rightarrow> error option \<times> model \<times> (command \<times> inlineCompletionItem) option" where
  "acceptNext env ed getAcceptUntilIndex st m =
     (if getModel ed \<noteq> Some (model_id (textModel env)) then (Some BugIndicatingError, m, None)
      else case st of
        None \<Rightarrow> (None, m, None)
      | Some s \<Rightarrow>
          (case primaryGhostText s of
             None \<Rightarrow> (Some TypeError, m, None)
           | Some ghostText \<Rightarrow>
               if isEmpty ghostText then (None, m, None)
               else case inlineCompletion s of
                 None \<Rightarrow> (None, m, None)
               | Some ic \<Rightarrow>
                   (let completion = toInlineCompletion ic
                    in if snippetInfo completion \<noteq> None
                          \<or> filterText completion \<noteq> insertText completion
                       then (case accept env ed st m of (e, m') \<Rightarrow> (e, m', None))
                       else case parts ghostText of
                         [] \<Rightarrow> (Some TypeError, m, None)
                       | firstPart # _ \<Rightarrow>
                           (let pos = Position (gt_lineNumber ghostText) (part_column firstPart);
                                text = part_text firstPart;
                                acceptUntilIndexExclusive = getAcceptUntilIndex pos text
                            in if acceptUntilIndexExclusive = int (length text)
                                  \<and> length (parts ghostText) = 1
                               then (case acceptStart env ed st m of
                                       (e, m', pending) \<Rightarrow> (None, m', pending))
                               else
                                 (let partialText = substring text 0 acceptUntilIndexExclusive;
                                      src = list_id (source completion);
                                      m1 = emit [AddRef src] m;
                                      m2 = m1\<lparr>isAcceptingPartially := True\<rparr>;
                                      m3 = emit [PushUndoStop] m2;
                                      replaceRange =
                                        fromPositions (getStartPosition (ic_range completion)) pos;
                                      newText =
                                        substring (insertText completion) 0
                                          (part_column firstPart
                                             - startColumn (ic_range completion)
                                             + acceptUntilIndexExclusive);
                                      singleTextEdit = SingleTextEdit replaceRange newText
                                  in case getEdits (selectionsAfter env) (textModel env)
                                            (selections env) singleTextEdit of
                                       Inl e \<Rightarrow>
                                         (Some e,
                                          emit [RemoveRef src]
                                            (m3\<lparr>isAcceptingPartially := False\<rparr>),
                                          None)
                                     | Inr (eds, sels) \<Rightarrow>
                                         (let m4 =
                                                emit [ExecuteEdits ''inlineSuggestion.accept''
                                                        (map (\<lambda>e. replaceMove (edit_range e)
                                                                      (edit_text e)) eds),
                                                      SetSelections sels
                                                        ''inlineCompletionPartialAccept'']
                                                  m3;
                                              m5 = m4\<lparr>isAcceptingPartially := False\<rparr>;
                                              m6 =
                                                (if hasHandlePartialAccept (source completion)
                                                 then
                                                   (let acceptedRange =
                                                          fromPositions
                                                            (getStartPosition
                                                               (ic_range completion))
                                                            (addPositions env pos
                                                               (lengthOfText env partialText));
                                                        text' = getValueInRange ed (trace m5)
                                                                  acceptedRange
                                                    in emit [HandlePartialAccept src
                                                               (sourceInlineCompletion completion)
                                                               (length text')] m5)
                                                 else m5)
                                          in (None, emit [RemoveRef src] m6, None)))))))"

text \<open>
  The first match of a regular expression \<^verbatim>\<open>[class]+\<close> in a text, as its index and the
  matched text: the leftmost longest run of code units of the class.
\<close>

definition firstRun :: "(codeUnit \<Rightarrow> bool) \<Rightarrow> jsString \<Rightarrow> (nat \<times> jsString) option" where
  "firstRun P s =
     (let i = length (takeWhile (\<lambda>c. \<not> P c) s)
      in if i < length s then Some (i, takeWhile P (drop i s)) else None)"

text \<open>
  The class \<^verbatim>\<open>\s\<close> of the language: tab, line feed, vertical tab, form feed, carriage
  return, space, no-break space, U+1680, U+2000 to U+200A, U+2028, U+2029, U+202F, U+205F,
  U+3000 and U+FEFF.
\<close>

definition isWhiteSpace :: "codeUnit \<Rightarrow> bool" where
  "isWhiteSpace c \<longleftrightarrow>
     c \<in> {0x09, 0x0A, 0x0B, 0x0C, 0x0D, 0x20, 0xA0, 0x1680, 0x2028, 0x2029, 0x202F, 0x205F,
          0x3000, 0xFEFF}
     \<or> (0x2000 \<le> c \<and> c \<le> 0x200A)"

text \<open>The class \<^verbatim>\<open>\w\<close>: the digits, the upper and lower case letters, and the underscore.\<close>

definition isWordChar :: "codeUnit \<Rightarrow> bool" where
  "isWordChar c \<longleftrightarrow>
     (0x30 \<le> c \<and> c \<le> 0x39) \<or> (0x41 \<le> c \<and> c \<le> 0x5A) \<or> c = 0x5F
     \<or> (0x61 \<le> c \<and> c \<le> 0x7A)"

text \<open>\<^verbatim>\<open>/\s+/g.exec(text)\<close> on a fresh expression.\<close>

definition wsRegExp_exec :: "jsString \<Rightarrow> (nat \<times> jsString) option" where
  "wsRegExp_exec text = firstRun isWhiteSpace text"

text \<open>
  The callback of \<^verbatim>\<open>acceptNextWord\<close>; \<open>wordRegExp\<close> is \<^verbatim>\<open>text.match(wordRegExp)\<close> for the
  word definition of the language at the position, without its \<^verbatim>\<open>g\<close> flag.
\<close>

definition acceptNextWord_index :: "(jsString \<Rightarrow> (nat \<times> jsString) option) \<Rightarrow> jsString \<Rightarrow> nat" where
  "acceptNextWord_index wordRegExp text =
     (let m1 = wordRegExp text;
          acceptUntilIndexExclusive =
            (case m1 of
               Some (index, m0) \<Rightarrow> if index = 0 then length m0 else index
             | None \<Rightarrow> length text);
          m2 = wsRegExp_exec text
      in case m2 of
           Some (index2, ws) \<Rightarrow>
             if index2 + length ws < acceptUntilIndexExclusive then index2 + length ws
             else acceptUntilIndexExclusive
         | None \<Rightarrow> acceptUntilIndexExclusive)"

text \<open>\<^verbatim>\<open>acceptNextWord(editor)\<close>.\<close>

definition acceptNextWord ::
  "env \<Rightarrow> editor \<Rightarrow> derivedState option \<Rightarrow> model
     \<Rightarrow> error option \<times> model \<times> (command \<times> inlineCompletionItem) option" where
  "acceptNextWord env ed st m =
     acceptNext env ed (\<lambda>pos text. int (acceptNextWord_index (wordDefinition env pos) text)) st m"

text \<open>The callback of \<^verbatim>\<open>acceptNextLine\<close>: \<^verbatim>\<open>text.match(/\n/)\<close>.\<close>

definition acceptNextLine_index :: "jsString \<Rightarrow> nat" where
  "acceptNextLine_index text =
     (let i = length (takeWhile (\<lambda>c. c \<noteq> 0x0A) text)
      in if i < length text then i + 1 else length text)"

text \<open>\<^verbatim>\<open>acceptNextLine(editor)\<close>.\<close>

definition acceptNextLine ::
  "env \<Rightarrow> editor \<Rightarrow> derivedState option \<Rightarrow> model
     \<Rightarrow> error option \<times> model \<times> (command \<times> inlineCompletionItem) option" where
  "acceptNextLine env ed st m =
     acceptNext env ed (\<lambda>pos text. int (acceptNextLine_index text)) st m"

subsection \<open>Reading a trace\<close>


fun isCommandCall :: "event \<Rightarrow> bool" where
  "isCommandCall (ExecuteCommand c args) = True"
| "isCommandCall _ = False"

subsection \<open>Concrete inputs\<close>

text \<open>A collapsed selection: a cursor.\<close>

definition cursorAt :: "int \<Rightarrow> int \<Rightarrow> selection" where
  "cursorAt l c =
     \<lparr>selectionStartLineNumber = l, selectionStartColumn = c,
      positionLineNumber = l, positionColumn = c\<rparr>"

text \<open>A text model with the two lines \<open>xxab\<close> and \<open>yyab\<close>.\<close>

definition two_lines :: textModel where
  "two_lines =
     \<lparr>model_id = 0,
      getLineContent =
        (\<lambda>n. if n = 1 then Inr (js ''xxab'') else if n = 2 then Inr (js ''yyab'')
             else Inl ModelError)\<rparr>"

text \<open>
  A candidate that inserts a text at line 1, where the document has already the first
  \<open>typed\<close> code units of it; its ghost text is the rest, in one part.
\<close>

definition text_item :: "jsString \<Rightarrow> nat \<Rightarrow> command option \<Rightarrow> inlineCompletionItem" where
  "text_item txt typed c =
     \<lparr>filterText = txt, ic_command = c,
      ic_range = fromPositions (Position 1 1) (Position 1 (1 + int typed)),
      insertText = txt, snippetInfo = None, additionalTextEdits = [],
      sourceInlineCompletion = 0,
      source = \<lparr>list_id = 7, hasHandlePartialAccept = True\<rparr>\<rparr>"

definition text_ghost :: "jsString \<Rightarrow> nat \<Rightarrow> ghostText" where
  "text_ghost txt typed =
     \<lparr>gt_lineNumber = 1,
      parts = [\<lparr>part_column = 1 + int typed, part_text = drop typed txt\<rparr>],
      isEmpty = False\<rparr>"

definition text_state :: "jsString \<Rightarrow> nat \<Rightarrow> command option \<Rightarrow> derivedState" where
  "text_state txt typed c =
     \<lparr>suggestItem = None,
      inlineCompletion = Some \<lparr>semanticId = txt, toInlineCompletion = text_item txt typed c\<rparr>,
      primaryGhostText = Some (text_ghost txt typed),
      ghostTexts = [text_ghost txt typed],
      edits = [SingleTextEdit (fromPositions (Position 1 1) (Position 1 (1 + int typed))) txt],
      editorSelections = [cursorAt 1 (1 + int (length txt))]\<rparr>"

text \<open>
  The collaborators of that session: a document of one line, one cursor behind the typed
  code units, the word definition \<^verbatim>\<open>\w+\<close>, a command service whose promise is fulfilled
  or not, and the two position helpers on texts of one line.
\<close>

definition text_env :: "jsString \<Rightarrow> nat \<Rightarrow> bool \<Rightarrow> env" where
  "text_env txt typed fulfilled =
     \<lparr>textModel =
        \<lparr>model_id = 0,
         getLineContent = (\<lambda>n. if n = 1 then Inr (take typed txt) else Inl ModelError)\<rparr>,
      selections = [cursorAt 1 (1 + int typed)],
      selectionsAfter =
        (\<lambda>eds. map (\<lambda>e. cursorAt (startLineNumber (edit_range e))
                          (startColumn (edit_range e) + int (length (edit_text e)))) eds),
      commandFulfilled = (\<lambda>c args. fulfilled),
      wordDefinition = (\<lambda>pos. firstRun isWordChar),
      addPositions =
        (\<lambda>p q. Position (lineNumber p + lineNumber q - 1)
                 (if lineNumber q = 1 then column p + column q - 1 else column q)),
      lengthOfText = (\<lambda>t. Position 1 (1 + int (length t)))\<rparr>"

text \<open>
  An editor on that text model for a session with one cursor: its document is the line,
  each \<^verbatim>\<open>executeEdits\<close> replaces the columns of its first operation by the text of that
  operation, and \<^verbatim>\<open>getValueInRange\<close> reads the columns of a range from the line.
\<close>

fun applyCall :: "jsString \<Rightarrow> event \<Rightarrow> jsString" where
  "applyCall line (ExecuteEdits src (ed # eds)) =
     take (nat (startColumn (op_range ed) - 1)) line @ op_text ed
       @ drop (nat (endColumn (op_range ed) - 1)) line"
| "applyCall line _ = line"

definition line_editor :: "jsString \<Rightarrow> editor" where
  "line_editor line =
     \<lparr>getModel = Some 0, hasSnippetController = True,
      getValueInRange =
        (\<lambda>tr r. substring (foldl applyCall line tr) (startColumn r - 1) (endColumn r - 1))\<rparr>"

text \<open>The session of the candidate \<open>hello world\<close>, and an editor on another text model.\<close>

definition hello_item :: "nat \<Rightarrow> command option \<Rightarrow> inlineCompletionItem" where
  "hello_item typed c = text_item (js ''hello world'') typed c"

definition hello_state :: "nat \<Rightarrow> command option \<Rightarrow> derivedState" where
  "hello_state typed c = text_state (js ''hello world'') typed c"

definition hello_env :: "nat \<Rightarrow> bool \<Rightarrow> env" where
  "hello_env typed fulfilled = text_env (js ''hello world'') typed fulfilled"

definition hello_editor :: "nat \<Rightarrow> editor" where
  "hello_editor typed = line_editor (take typed (js ''hello world''))"

definition other_editor :: editor where
  "other_editor = (hello_editor 0)\<lparr>getModel := Some 1\<rparr>"

definition active :: model where
  "active =
     \<lparr>isActive = True, selectedInlineCompletionId = None, isAcceptingPartially = False,
      trace = []\<rparr>"

text \<open>A candidate with a given semantic id and insertion text.\<close>

definition candidate :: "string \<Rightarrow> string \<Rightarrow> inlineCompletionWithUpdatedRange" where
  "candidate sid txt = \<lparr>semanticId = js sid, toInlineCompletion = text_item (js txt) 0 None\<rparr>"

text \<open>
  What the derived state reads in these sessions: ghost text in one part, from the cursor to
  the end of the edit's text; a suggestion is augmented by an edit of the same range.
\<close>

definition text_reads ::
  "singleTextEdit option \<Rightarrow> inlineCompletionWithUpdatedRange list \<Rightarrow> stateReads" where
  "text_reads item filtered =
     \<lparr>selectedSuggestItem = item,
      suggestWidgetInlineCompletions = None,
      filteredInlineCompletionItems = filtered,
      suggestPreviewEnabled = True,
      suggestPreviewMode = ModePrefix,
      inlineSuggestMode = ModePrefix,
      removeCommonPrefix = (\<lambda>e r. e),
      augments = (\<lambda>e suggestion. edit_range e = edit_range suggestion),
      computeGhostText =
        (\<lambda>e mode pos n.
           Some \<lparr>gt_lineNumber = lineNumber pos,
                 parts = [\<lparr>part_column = column pos,
                           part_text = substringFrom (edit_text e)
                                         (column pos - startColumn (edit_range e))\<rparr>],
                 isEmpty = False\<rparr>),
      newGhostText = (\<lambda>l ps. \<lparr>gt_lineNumber = l, parts = ps, isEmpty = True\<rparr>)\<rparr>"

section \<open>Properties\<close>

subsection \<open>Unfolding the model on concrete inputs\<close>

lemmas position_defs =
  Position_def delta_def fromPositions_def getStartPosition_def getEndPosition_def
  getPosition_def SingleTextEdit_def toSingleTextEdit_def replaceMove_def substring_def
  substringFrom_def

lemmas getEdits_defs = getEdits_def secondaryEdit_def

lemmas accept_defs =
  acceptStart_def acceptFinish_def settle_def accept_def acceptNext_def acceptNextWord_def
  acceptNextLine_def emit_def acceptNextWord_index_def acceptNextLine_index_def
  wsRegExp_exec_def firstRun_def isWordChar_def isWhiteSpace_def

lemmas input_defs =
  js_def cursorAt_def two_lines_def text_item_def text_ghost_def text_state_def text_env_def
  line_editor_def hello_item_def hello_state_def hello_env_def hello_editor_def
  other_editor_def active_def candidate_def text_reads_def

subsection \<open>The common prefix\<close>

lemma commonPrefixLength_le:
  "commonPrefixLength a b \<le> length a \<and> commonPrefixLength a b \<le> length b"
  by (induction a b rule: commonPrefixLength.induct) auto

text \<open>
  The prefixes of length \<open>n\<close> of the two strings agree exactly up to the result: it is the
  length of the longest common prefix.
\<close>

lemma commonPrefixLength_longest:
  "n \<le> length a \<Longrightarrow> n \<le> length b \<Longrightarrow>
     (take n a = take n b) = (n \<le> commonPrefixLength a b)"
proof (induction a b arbitrary: n rule: commonPrefixLength.induct)
  case (1 a as b bs)
  then show ?case by (cases n) auto
qed simp_all

subsection \<open>Edits for all cursors\<close>

lemma secondaryEdits_Inr:
  "\<forall>p \<in> set ps. \<exists>line. getLineContent tm (lineNumber p) = Inr line \<Longrightarrow>
   \<exists>eds. secondaryEdits tm rep txt ps = Inr eds \<and> length eds = length ps \<and>
     (\<forall>i < length ps. secondaryEdit tm rep txt (ps ! i) = Inr (eds ! i))"
proof (induction ps)
  case Nil
  then show ?case by simp
next
  case (Cons p ps)
  then obtain line where "getLineContent tm (lineNumber p) = Inr line" by auto
  then obtain ed where e: "secondaryEdit tm rep txt p = Inr ed"
    by (simp add: secondaryEdit_def Let_def)
  from Cons obtain eds where es: "secondaryEdits tm rep txt ps = Inr eds"
    "length eds = length ps"
    "\<forall>i < length ps. secondaryEdit tm rep txt (ps ! i) = Inr (eds ! i)" by auto
  show ?case using e es by (auto simp: nth_Cons split: nat.splits)
qed


text \<open>
  C1, as stated, fails: with the cursors at line 1 column 5 and line 2 column 5, both behind
  \<open>ab\<close>, and a candidate that replaces that \<open>ab\<close> (columns 3 to 5 of line 1) by \<open>abc\<close>, the
  edit of the secondary cursor is a zero-width insertion of \<open>c\<close>, the part of the candidate's
  text behind the primary cursor, and not of the text \<open>abc\<close> of the primary edit.
\<close>

theorem getEdits_secondary_text_counterexample:
  "getEdits (\<lambda>eds. []) two_lines [cursorAt 1 5, cursorAt 2 5]
     (SingleTextEdit (fromPositions (Position 1 3) (Position 1 5)) (js ''abc''))
   = Inr ([SingleTextEdit (fromPositions (Position 1 3) (Position 1 5)) (js ''abc''),
           SingleTextEdit (fromPositions (Position 2 5) (Position 2 5)) (js ''c'')], [])
   \<and> js ''c'' \<noteq> js ''abc''"
  by (simp add: getEdits_defs position_defs input_defs Let_def)

text \<open>
  C1, amended. For a candidate with range \<open>R\<close> and text \<open>T\<close>, a primary cursor \<open>s0\<close>
  and secondary cursors \<open>rest\<close> whose lines the text model returns, \<^verbatim>\<open>_getEdits\<close> returns
  one edit per cursor, the first being \<open>(R, T)\<close>. The edit of the secondary cursor \<open>c1\<close>
  starts at \<open>c1\<close> and spans \<open>k\<close> columns, where \<open>k\<close> is the length of the longest common
  prefix of the text from \<open>c1\<close> to the end of its line and of the text that the primary edit
  replaces behind the primary cursor (the primary line from the cursor to the end column of
  \<open>R\<close>); it inserts \<open>T\<close> without its first \<open>column s0 - startColumn R\<close> characters, the
  part of \<open>T\<close> behind the primary cursor. With \<open>k = 0\<close> it is a zero-width insertion at
  \<open>c1\<close>.
\<close>

theorem getEdits_secondary:
  assumes sel: "sels = s0 # rest"
    and l0: "getLineContent tm (positionLineNumber s0) = Inr line0"
    and ls: "\<forall>s \<in> set rest. \<exists>line. getLineContent tm (positionLineNumber s) = Inr line"
    and i: "i < length rest"
    and l1: "getLineContent tm (positionLineNumber (rest ! i)) = Inr line1"
    and rep: "replaced = substring line0 (positionColumn s0 - 1) (endColumn R - 1)"
    and tr: "trailing = substringFrom line1 (positionColumn (rest ! i) - 1)"
    and k: "k = commonPrefixLength replaced trailing"
    and c1: "c1 = getPosition (rest ! i)"
  shows "\<exists>es. getEdits sa tm sels (SingleTextEdit R T) = Inr (es, sa es)
           \<and> length es = length sels
           \<and> es ! 0 = SingleTextEdit R T
           \<and> es ! Suc i =
               SingleTextEdit (fromPositions c1 (delta c1 0 (int k)))
                 (substringFrom T (positionColumn s0 - startColumn R))
           \<and> k \<le> length replaced \<and> k \<le> length trailing
           \<and> (\<forall>n. n \<le> length replaced \<and> n \<le> length trailing \<longrightarrow>
                  (take n replaced = take n trailing) = (n \<le> k))
           \<and> (k = 0 \<longrightarrow> edit_range (es ! Suc i) = fromPositions c1 c1)"
proof -
  let ?txt = "substringFrom T (positionColumn s0 - startColumn R)"
  have "\<forall>p \<in> set (map getPosition rest). \<exists>line. getLineContent tm (lineNumber p) = Inr line"
    using ls by (simp add: getPosition_def Position_def)
  from secondaryEdits_Inr [OF this, of replaced ?txt]
  obtain eds where es: "secondaryEdits tm replaced ?txt (map getPosition rest) = Inr eds"
    "length eds = length rest"
    "\<forall>j < length rest. secondaryEdit tm replaced ?txt (map getPosition rest ! j) = Inr (eds ! j)"
    by auto
  have ge: "getEdits sa tm sels (SingleTextEdit R T)
              = Inr (SingleTextEdit R T # eds, sa (SingleTextEdit R T # eds))"
    using sel l0 es(1) rep
    by (simp add: getEdits_def getPosition_def Position_def SingleTextEdit_def Let_def)
  have "secondaryEdit tm replaced ?txt (getPosition (rest ! i)) = Inr (eds ! i)"
    using es(3) i by simp
  then have ei: "eds ! i = SingleTextEdit (fromPositions c1 (delta c1 0 (int k))) ?txt"
    using l1 tr k c1 by (simp add: secondaryEdit_def getPosition_def Position_def Let_def)
  have z: "k = 0 \<longrightarrow> edit_range (eds ! i) = fromPositions c1 c1"
    using ei by (simp add: SingleTextEdit_def delta_def Position_def fromPositions_def)
  show ?thesis
    using ge es(2) sel ei z commonPrefixLength_le [of replaced trailing]
      commonPrefixLength_longest [of _ replaced trailing] k
    by auto
qed

text \<open>
  The theorem at the cursors of line 1 column 4 and line 2 column 4 of the same document:
  the secondary edit spans the one character \<open>b\<close> and inserts \<open>bc\<close>.
\<close>

theorem getEdits_secondary_witness:
  "getEdits (\<lambda>eds. []) two_lines [cursorAt 1 4, cursorAt 2 4]
     (SingleTextEdit (fromPositions (Position 1 3) (Position 1 5)) (js ''abc''))
   = Inr ([SingleTextEdit (fromPositions (Position 1 3) (Position 1 5)) (js ''abc''),
           SingleTextEdit (fromPositions (Position 2 4) (Position 2 5)) (js ''bc'')], [])"
proof -
  let ?R = "fromPositions (Position 1 3) (Position 1 5)"
  have l0: "getLineContent two_lines (positionLineNumber (cursorAt 1 4)) = Inr (js ''xxab'')"
    by (simp add: input_defs)
  have ls: "\<forall>s \<in> set [cursorAt 2 4]. \<exists>line. getLineContent two_lines (positionLineNumber s) = Inr line"
    by (simp add: input_defs)
  have i: "(0::nat) < length [cursorAt 2 4]" by simp
  have l1: "getLineContent two_lines (positionLineNumber ([cursorAt 2 4] ! 0)) = Inr (js ''yyab'')"
    by (simp add: input_defs)
  have rep: "js ''b'' = substring (js ''xxab'') (positionColumn (cursorAt 1 4) - 1) (endColumn ?R - 1)"
    by (simp add: input_defs position_defs Let_def)
  have tr: "js ''b'' = substringFrom (js ''yyab'') (positionColumn ([cursorAt 2 4] ! 0) - 1)"
    by (simp add: input_defs position_defs Let_def)
  have k: "(1::nat) = commonPrefixLength (js ''b'') (js ''b'')" by (simp add: js_def)
  from getEdits_secondary [OF refl l0 ls i l1 rep tr k refl,
      where sa = "\<lambda>eds. []" and T = "js ''abc''"]
  obtain es where g: "getEdits (\<lambda>eds. []) two_lines [cursorAt 1 4, cursorAt 2 4]
        (SingleTextEdit ?R (js ''abc'')) = Inr (es, [])"
    and n: "length es = 2"
    and e0: "es ! 0 = SingleTextEdit ?R (js ''abc'')"
    and e1: "es ! 1 = SingleTextEdit (fromPositions (getPosition (cursorAt 2 4))
                         (delta (getPosition (cursorAt 2 4)) 0 1))
                       (substringFrom (js ''abc'') (positionColumn (cursorAt 1 4) - startColumn ?R))"
    by auto
  from n obtain a b where ab: "es = [a, b]"
    by (cases es; cases "tl es") auto
  show ?thesis using g e0 e1 unfolding ab
    by (simp add: input_defs position_defs Let_def)
qed

subsection \<open>Selection by semantic id\<close>

lemma findIndex_bounds:
  "findIndex P xs = - 1 \<or> (0 \<le> findIndex P xs \<and> findIndex P xs < int (length xs))"
  by (induction xs) (auto simp: Let_def)

lemma findIndex_none: "(findIndex P xs = - 1) = (\<forall>x \<in> set xs. \<not> P x)"
proof (induction xs)
  case Nil
  then show ?case by simp
next
  case (Cons x xs)
  show ?case using Cons findIndex_bounds [of P xs] by (auto simp: Let_def)
qed

lemma findIndex_first:
  "findIndex P xs \<noteq> - 1 \<Longrightarrow>
     P (xs ! nat (findIndex P xs)) \<and> (\<forall>j < nat (findIndex P xs). \<not> P (xs ! j))"
proof (induction xs)
  case Nil
  then show ?case by simp
next
  case (Cons x xs)
  show ?case
  proof (cases "P x")
    case True
    then show ?thesis by simp
  next
    case False
    with Cons.prems have ne: "findIndex P xs \<noteq> - 1" by (auto simp: Let_def split: if_splits)
    with findIndex_bounds [of P xs] have nn: "0 \<le> findIndex P xs" by auto
    have eq: "findIndex P (x # xs) = findIndex P xs + 1" using False ne by (simp add: Let_def)
    have n: "nat (findIndex P xs + 1) = Suc (nat (findIndex P xs))" using nn by simp
    show ?thesis using Cons.IH [OF ne] False unfolding eq n
      by (auto simp: nth_Cons split: nat.splits)
  qed
qed

lemma findIndex_distinct:
  "distinct (map f xs) \<Longrightarrow> i < length xs \<Longrightarrow> findIndex (\<lambda>v. f v = f (xs ! i)) xs = int i"
proof (induction xs arbitrary: i)
  case Nil
  then show ?case by simp
next
  case (Cons x xs)
  show ?case
  proof (cases i)
    case 0
    then show ?thesis by simp
  next
    case (Suc k)
    with Cons.prems have k: "k < length xs" and d: "distinct (map f xs)" by auto
    have "f (xs ! k) \<in> f ` set xs" using k by simp
    with Cons.prems have ne: "f x \<noteq> f (xs ! k)" by auto
    show ?thesis using Cons.IH [OF d k] ne Suc by (simp add: Let_def)
  qed
qed

lemma js_rem_nonneg: "0 \<le> a \<Longrightarrow> 0 < b \<Longrightarrow> js_rem a b = a mod b"
  by (cases "a = 0") (simp_all add: js_rem_def)

lemma index_in_range:
  "xs \<noteq> [] \<Longrightarrow> 0 \<le> fst (selectedInlineCompletionIndex xs m)
      \<and> fst (selectedInlineCompletionIndex xs m) < int (length xs)"
  using findIndex_bounds [of "\<lambda>v. Some (semanticId v) = selectedInlineCompletionId m" xs]
  by (auto simp: selectedInlineCompletionIndex_def Let_def)

lemma index_trigger:
  "fst (selectedInlineCompletionIndex xs (triggerExplicitly m))
     = fst (selectedInlineCompletionIndex xs m)"
  by (simp add: selectedInlineCompletionIndex_def triggerExplicitly_def emit_def Let_def)

lemma index_of_stored:
  "distinct (map semanticId xs) \<Longrightarrow> i < length xs \<Longrightarrow>
   selectedInlineCompletionId m = Some (semanticId (xs ! i)) \<Longrightarrow>
   fst (selectedInlineCompletionIndex xs m) = int i"
  using findIndex_distinct [of semanticId xs i]
  by (simp add: selectedInlineCompletionIndex_def Let_def)

lemma selected_of_stored:
  "distinct (map semanticId xs) \<Longrightarrow> i < length xs \<Longrightarrow>
   selectedInlineCompletionId m = Some (semanticId (xs ! i)) \<Longrightarrow>
   fst (selectedInlineCompletion xs m) = Some (xs ! i)"
  using index_of_stored [of xs i m]
  by (simp add: selectedInlineCompletion_def split_beta at_index_def Let_def)

lemma delta_stored:
  assumes ne: "xs \<noteq> []" and d: "d = 1 \<or> d = - 1"
  shows "fst (deltaSelectedInlineCompletionIndex d xs m) = None \<and>
         selectedInlineCompletionId (snd (deltaSelectedInlineCompletionIndex d xs m)) =
           Some (semanticId (xs ! nat ((fst (selectedInlineCompletionIndex xs m) + d
                                          + int (length xs)) mod int (length xs))))"
proof -
  let ?n = "int (length xs)"
  let ?i = "fst (selectedInlineCompletionIndex xs (triggerExplicitly m))"
  have n: "0 < ?n" using ne by simp
  have i: "0 \<le> ?i" "?i < ?n" using index_in_range [OF ne] by auto
  have nn: "0 \<le> ?i + d + ?n" using i d by auto
  have r: "js_rem (?i + d + ?n) ?n = (?i + d + ?n) mod ?n" using js_rem_nonneg [OF nn n] .
  have b: "0 \<le> (?i + d + ?n) mod ?n" "(?i + d + ?n) mod ?n < ?n" using n by auto
  show ?thesis using ne r b
    by (simp add: deltaSelectedInlineCompletionIndex_def Let_def split_beta at_index_def
        index_trigger)
qed

text \<open>
  C3. When the filtered list has a candidate with the stored semantic id,
  \<^verbatim>\<open>selectedInlineCompletionIndex\<close> returns the position of the first such candidate and
  leaves the stored id as it is, wherever the candidate stands in the list; when it has none
  (also when nothing is stored), the stored id becomes \<^verbatim>\<open>undefined\<close> and the index is 0.
\<close>

theorem selectedInlineCompletionIndex_by_id:
  "(if \<exists>v \<in> set filtered. Some (semanticId v) = selectedInlineCompletionId m
    then \<exists>i < length filtered.
           selectedInlineCompletionIndex filtered m = (int i, m)
           \<and> Some (semanticId (filtered ! i)) = selectedInlineCompletionId m
           \<and> (\<forall>j < i. Some (semanticId (filtered ! j)) \<noteq> selectedInlineCompletionId m)
    else selectedInlineCompletionIndex filtered m = (0, m\<lparr>selectedInlineCompletionId := None\<rparr>))"
proof (cases "\<exists>v \<in> set filtered. Some (semanticId v) = selectedInlineCompletionId m")
  case True
  let ?P = "\<lambda>v. Some (semanticId v) = selectedInlineCompletionId m"
  have ne: "findIndex ?P filtered \<noteq> - 1" using True findIndex_none [of ?P filtered] by auto
  with findIndex_bounds [of ?P filtered]
  have b: "0 \<le> findIndex ?P filtered" "findIndex ?P filtered < int (length filtered)" by auto
  have "nat (findIndex ?P filtered) < length filtered
        \<and> selectedInlineCompletionIndex filtered m = (int (nat (findIndex ?P filtered)), m)
        \<and> ?P (filtered ! nat (findIndex ?P filtered))
        \<and> (\<forall>j < nat (findIndex ?P filtered). \<not> ?P (filtered ! j))"
    using ne b findIndex_first [OF ne]
    by (simp add: selectedInlineCompletionIndex_def Let_def)
  then show ?thesis using True by auto
next
  case False
  then have "findIndex (\<lambda>v. Some (semanticId v) = selectedInlineCompletionId m) filtered = - 1"
    using findIndex_none [of "\<lambda>v. Some (semanticId v) = selectedInlineCompletionId m" filtered]
    by auto
  then show ?thesis using False by (simp add: selectedInlineCompletionIndex_def Let_def)
qed

text \<open>
  The theorem on two batches: the candidate \<open>B\<close> is selected at position 1 of the first and
  at position 0 of the second; when it is gone, the stored id is reset and the index is 0.
\<close>

theorem selectedInlineCompletionIndex_by_id_witness:
  "selectedInlineCompletionIndex [candidate ''A'' ''a'', candidate ''B'' ''b'']
       (active\<lparr>selectedInlineCompletionId := Some (js ''B'')\<rparr>)
     = (1, active\<lparr>selectedInlineCompletionId := Some (js ''B'')\<rparr>)
   \<and> selectedInlineCompletionIndex [candidate ''B'' ''b'', candidate ''C'' ''c'', candidate ''A'' ''a'']
       (active\<lparr>selectedInlineCompletionId := Some (js ''B'')\<rparr>)
     = (0, active\<lparr>selectedInlineCompletionId := Some (js ''B'')\<rparr>)
   \<and> selectedInlineCompletionIndex [candidate ''A'' ''a'', candidate ''C'' ''c'']
       (active\<lparr>selectedInlineCompletionId := Some (js ''B'')\<rparr>)
     = (0, active\<lparr>selectedInlineCompletionId := None\<rparr>)"
proof -
  let ?m = "active\<lparr>selectedInlineCompletionId := Some (js ''B'')\<rparr>"
  have a: "selectedInlineCompletionIndex [candidate ''A'' ''a'', candidate ''B'' ''b''] ?m = (1, ?m)"
    using selectedInlineCompletionIndex_by_id
            [of "[candidate ''A'' ''a'', candidate ''B'' ''b'']" ?m]
    by (auto simp: input_defs less_Suc_eq)
  have b: "selectedInlineCompletionIndex
             [candidate ''B'' ''b'', candidate ''C'' ''c'', candidate ''A'' ''a''] ?m = (0, ?m)"
    using selectedInlineCompletionIndex_by_id
            [of "[candidate ''B'' ''b'', candidate ''C'' ''c'', candidate ''A'' ''a'']" ?m]
    by (auto simp: input_defs less_Suc_eq)
  have c: "selectedInlineCompletionIndex [candidate ''A'' ''a'', candidate ''C'' ''c''] ?m
             = (0, active\<lparr>selectedInlineCompletionId := None\<rparr>)"
    using selectedInlineCompletionIndex_by_id
            [of "[candidate ''A'' ''a'', candidate ''C'' ''c'']" ?m]
    by (simp add: input_defs)
  show ?thesis using a b c by simp
qed

text \<open>
  C10. Whenever the filtered list is not empty, the index computed by
  \<^verbatim>\<open>selectedInlineCompletionIndex\<close> lies within the list, whatever is stored, and
  \<^verbatim>\<open>selectedInlineCompletion\<close> is the candidate at that index: it is defined.
\<close>

theorem selectedInlineCompletion_defined:
  assumes "filtered \<noteq> []"
  shows "\<exists>i < length filtered.
           fst (selectedInlineCompletionIndex filtered m) = int i
           \<and> fst (selectedInlineCompletion filtered m) = Some (filtered ! i)"
proof -
  let ?i = "fst (selectedInlineCompletionIndex filtered m)"
  have b: "0 \<le> ?i" "?i < int (length filtered)" using index_in_range [OF assms] by auto
  then have "fst (selectedInlineCompletion filtered m) = Some (filtered ! nat ?i)"
    by (simp add: selectedInlineCompletion_def split_beta at_index_def)
  with b show ?thesis by (intro exI [of _ "nat ?i"]) simp
qed

text \<open>
  The theorem on a list of two candidates with nothing stored: the first one is selected.
\<close>

theorem selectedInlineCompletion_defined_witness:
  "fst (selectedInlineCompletionIndex [candidate ''A'' ''a'', candidate ''B'' ''b''] active) = 0
   \<and> fst (selectedInlineCompletion [candidate ''A'' ''a'', candidate ''B'' ''b''] active)
       = Some (candidate ''A'' ''a'')"
proof -
  have ne: "[candidate ''A'' ''a'', candidate ''B'' ''b''] \<noteq> []" by simp
  from selectedInlineCompletion_defined [OF ne, of active]
  obtain i where "i < 2"
    "fst (selectedInlineCompletionIndex [candidate ''A'' ''a'', candidate ''B'' ''b''] active) = int i"
    "fst (selectedInlineCompletion [candidate ''A'' ''a'', candidate ''B'' ''b''] active)
       = Some ([candidate ''A'' ''a'', candidate ''B'' ''b''] ! i)"
    by auto
  moreover have
    "fst (selectedInlineCompletionIndex [candidate ''A'' ''a'', candidate ''B'' ''b''] active) = 0"
    by (simp add: selectedInlineCompletionIndex_def input_defs Let_def)
  ultimately show ?thesis by simp
qed

subsection \<open>Next and previous\<close>

text \<open>
  C8, as stated, fails when two candidates of the filtered list share a semantic id. In the
  list of \<open>a\<close> (id \<open>X\<close>), \<open>b\<close> (id \<open>Y\<close>) and \<open>c\<close> (id \<open>Y\<close>) with \<open>Y\<close> stored, \<open>b\<close> is
  selected; \<^verbatim>\<open>next()\<close> stores the id of \<open>c\<close>, which selects \<open>b\<close> again, and
  \<^verbatim>\<open>previous()\<close> then moves to \<open>a\<close>.
\<close>

theorem next_previous_counterexample:
  "fst (selectedInlineCompletion
          [candidate ''X'' ''a'', candidate ''Y'' ''b'', candidate ''Y'' ''c'']
          (active\<lparr>selectedInlineCompletionId := Some (js ''Y'')\<rparr>))
     = Some (candidate ''Y'' ''b'')
   \<and> fst (selectedInlineCompletion
          [candidate ''X'' ''a'', candidate ''Y'' ''b'', candidate ''Y'' ''c'']
          (snd (previous_completion
                  [candidate ''X'' ''a'', candidate ''Y'' ''b'', candidate ''Y'' ''c'']
                  (snd (next_completion
                          [candidate ''X'' ''a'', candidate ''Y'' ''b'', candidate ''Y'' ''c'']
                          (active\<lparr>selectedInlineCompletionId := Some (js ''Y'')\<rparr>))))))
     = Some (candidate ''X'' ''a'')
   \<and> candidate ''X'' ''a'' \<noteq> candidate ''Y'' ''b''"
  by (simp add: selectedInlineCompletion_def selectedInlineCompletionIndex_def
      next_completion_def previous_completion_def deltaSelectedInlineCompletionIndex_def
      triggerExplicitly_def emit_def at_index_def js_rem_def input_defs Let_def)

text \<open>
  C8, amended. Navigation stores the semantic id of the candidate at index
  \<open>(index + delta + length) mod length\<close> of the filtered list, and clears the stored id when
  the list is empty. If the filtered list is unchanged, not empty, and its candidates have
  pairwise distinct semantic ids, then \<^verbatim>\<open>next()\<close> followed by \<^verbatim>\<open>previous()\<close> selects
  the candidate that was selected before.
\<close>

theorem next_previous:
  "(selectedInlineCompletionId (snd (deltaSelectedInlineCompletionIndex d [] m)) = None)
   \<and> (completions \<noteq> [] \<and> (d = 1 \<or> d = - 1) \<longrightarrow>
        fst (deltaSelectedInlineCompletionIndex d completions m) = None
        \<and> selectedInlineCompletionId (snd (deltaSelectedInlineCompletionIndex d completions m)) =
            Some (semanticId (completions !
                    nat ((fst (selectedInlineCompletionIndex completions m) + d
                            + int (length completions)) mod int (length completions)))))
   \<and> (completions \<noteq> [] \<and> distinct (map semanticId completions) \<longrightarrow>
        fst (selectedInlineCompletion completions
               (snd (previous_completion completions (snd (next_completion completions m)))))
          = fst (selectedInlineCompletion completions m)
        \<and> fst (selectedInlineCompletion completions m) \<noteq> None)"
proof -
  have empty: "selectedInlineCompletionId (snd (deltaSelectedInlineCompletionIndex d [] m)) = None"
    by (simp add: deltaSelectedInlineCompletionIndex_def Let_def)
  have round:
    "fst (selectedInlineCompletion completions
               (snd (previous_completion completions (snd (next_completion completions m)))))
          = fst (selectedInlineCompletion completions m)
        \<and> fst (selectedInlineCompletion completions m) \<noteq> None"
    if ne: "completions \<noteq> []" and dist: "distinct (map semanticId completions)"
  proof -
    let ?n = "int (length completions)"
    let ?i = "fst (selectedInlineCompletionIndex completions m)"
    let ?m1 = "snd (next_completion completions m)"
    let ?m2 = "snd (previous_completion completions ?m1)"
    have n: "0 < ?n" using ne by simp
    have i: "0 \<le> ?i" "?i < ?n" using index_in_range [OF ne] by auto
    let ?j = "(?i + 1 + ?n) mod ?n"
    have j: "0 \<le> ?j" "?j < ?n" using n by auto
    have s1: "selectedInlineCompletionId ?m1 = Some (semanticId (completions ! nat ?j))"
      using delta_stored [OF ne, of 1 m] by (simp add: next_completion_def)
    have jn: "nat ?j < length completions" using j by simp
    have i1: "fst (selectedInlineCompletionIndex completions ?m1) = ?j"
      using index_of_stored [OF dist jn s1] j by simp
    have again: "(?j + - 1 + ?n) mod ?n = ?i"
    proof -
      have "(?j + - 1 + ?n) mod ?n = ((?i + 1 + ?n) + (- 1 + ?n)) mod ?n"
        by (metis (no_types) add.assoc mod_add_left_eq)
      also have "\<dots> = (?i + 2 * ?n) mod ?n" by (simp add: algebra_simps)
      also have "\<dots> = ?i" using i by simp
      finally show ?thesis .
    qed
    have s2: "selectedInlineCompletionId ?m2 = Some (semanticId (completions ! nat ?i))"
      using delta_stored [OF ne, of "- 1" ?m1] i1 again by (simp add: previous_completion_def)
    have inn: "nat ?i < length completions" using i by simp
    have a: "fst (selectedInlineCompletion completions ?m2) = Some (completions ! nat ?i)"
      using selected_of_stored [OF dist inn s2] .
    have b: "fst (selectedInlineCompletion completions m) = Some (completions ! nat ?i)"
      using i by (simp add: selectedInlineCompletion_def split_beta at_index_def)
    show ?thesis using a b by simp
  qed
  have step: "completions \<noteq> [] \<and> (d = 1 \<or> d = - 1) \<longrightarrow>
        fst (deltaSelectedInlineCompletionIndex d completions m) = None
        \<and> selectedInlineCompletionId (snd (deltaSelectedInlineCompletionIndex d completions m)) =
            Some (semanticId (completions !
                    nat ((fst (selectedInlineCompletionIndex completions m) + d
                            + int (length completions)) mod int (length completions))))"
    using delta_stored [of completions d m] by (intro impI) (elim conjE)
  show ?thesis
  proof (intro conjI)
    show "selectedInlineCompletionId (snd (deltaSelectedInlineCompletionIndex d [] m)) = None"
      by (rule empty)
    show "completions \<noteq> [] \<and> (d = 1 \<or> d = - 1) \<longrightarrow>
        fst (deltaSelectedInlineCompletionIndex d completions m) = None
        \<and> selectedInlineCompletionId (snd (deltaSelectedInlineCompletionIndex d completions m)) =
            Some (semanticId (completions !
                    nat ((fst (selectedInlineCompletionIndex completions m) + d
                            + int (length completions)) mod int (length completions))))"
      by (rule step)
    show "completions \<noteq> [] \<and> distinct (map semanticId completions) \<longrightarrow>
        fst (selectedInlineCompletion completions
               (snd (previous_completion completions (snd (next_completion completions m)))))
          = fst (selectedInlineCompletion completions m)
        \<and> fst (selectedInlineCompletion completions m) \<noteq> None"
      using round by (intro impI) (elim conjE)
  qed
qed

text \<open>
  The theorem on three candidates with distinct ids, the second one selected:
  \<^verbatim>\<open>next()\<close> stores the id of the third, and \<^verbatim>\<open>previous()\<close> after it selects the
  second again.
\<close>

theorem next_previous_witness:
  "selectedInlineCompletionId
     (snd (deltaSelectedInlineCompletionIndex 1
             [candidate ''X'' ''a'', candidate ''Y'' ''b'', candidate ''Z'' ''c'']
             (active\<lparr>selectedInlineCompletionId := Some (js ''Y'')\<rparr>))) = Some (js ''Z'')
   \<and> fst (selectedInlineCompletion
            [candidate ''X'' ''a'', candidate ''Y'' ''b'', candidate ''Z'' ''c'']
            (snd (previous_completion
                    [candidate ''X'' ''a'', candidate ''Y'' ''b'', candidate ''Z'' ''c'']
                    (snd (next_completion
                            [candidate ''X'' ''a'', candidate ''Y'' ''b'', candidate ''Z'' ''c'']
                            (active\<lparr>selectedInlineCompletionId := Some (js ''Y'')\<rparr>))))))
       = Some (candidate ''Y'' ''b'')"
proof -
  let ?cs = "[candidate ''X'' ''a'', candidate ''Y'' ''b'', candidate ''Z'' ''c'']"
  let ?m = "active\<lparr>selectedInlineCompletionId := Some (js ''Y'')\<rparr>"
  have ne: "?cs \<noteq> []" by simp
  have dist: "distinct (map semanticId ?cs)" by (simp add: input_defs)
  have idx: "fst (selectedInlineCompletionIndex ?cs ?m) = 1"
    by (simp add: selectedInlineCompletionIndex_def input_defs Let_def)
  have sel: "fst (selectedInlineCompletion ?cs ?m) = Some (candidate ''Y'' ''b'')"
    by (simp add: selectedInlineCompletion_def selectedInlineCompletionIndex_def at_index_def
        input_defs Let_def)
  have sid: "semanticId (?cs ! 2) = js ''Z''"
    by (simp add: input_defs)
  show ?thesis
    using next_previous [of 1 ?m ?cs] ne dist idx sel sid by simp
qed


subsection \<open>Accepting\<close>


lemma accept_outcome: "fst (accept env ed st m) = fst (acceptStart env ed st m)"
  by (simp add: accept_def settle_def split: prod.splits option.splits)

text \<open>
  C4 fails on the code for the full accept. On a candidate with a command and no snippet,
  \<^verbatim>\<open>accept\<close> executes the edits and sets the selections first, and calls \<^verbatim>\<open>addRef\<close> on
  the batch only after that, before the source is cleared; \<^verbatim>\<open>removeRef\<close> follows the
  command. (\<^verbatim>\<open>_acceptNext\<close>, in contrast, calls \<^verbatim>\<open>addRef\<close> before its edit.)
\<close>

theorem accept_addRef_after_edits:
  "accept (hello_env 0 True) (hello_editor 0)
     (Some (hello_state 0 (Some \<lparr>command_id = js ''cmd'', arguments = None\<rparr>))) active =
   (None,
    active\<lparr>isActive := False,
           trace :=
             [PushUndoStop,
              ExecuteEdits ''inlineSuggestion.accept''
                [replaceMove (fromPositions (Position 1 1) (Position 1 1)) (js ''hello world'')],
              SetSelections [cursorAt 1 12] ''inlineCompletionAccept'',
              AddRef 7,
              Transaction [SourceClear, IsActiveSet False],
              ExecuteCommand (js ''cmd'') [],
              RemoveRef 7]\<rparr>)"
  by (simp add: accept_defs position_defs input_defs Let_def)

text \<open>
  C5. When \<^verbatim>\<open>accept\<close> finds a state to accept, it returns normally and its calls are:
  some calls \<open>pre\<close>, among them the \<^verbatim>\<open>executeEdits\<close> and no command; then the one
  transaction that clears the source and sets the active flag to false; then, if the
  candidate has a command, the command, the report of its failure if its promise is rejected,
  and \<^verbatim>\<open>removeRef\<close>. Nothing follows a failed command but the report and \<^verbatim>\<open>removeRef\<close>:
  the edit stays applied, and the model ends inactive.
\<close>

theorem accept_resets_before_command:
  assumes ed: "getModel ed = Some (model_id (textModel env))"
    and st: "st = Some s" "primaryGhostText s = Some g" "\<not> isEmpty g"
      "inlineCompletion s = Some ic"
    and c: "completion = toInlineCompletion ic"
  shows "\<exists>pre ops.
      accept env ed st m =
        (None,
         m\<lparr>isActive := False,
           trace := trace m @ pre @ [Transaction [SourceClear, IsActiveSet False]]
             @ (case ic_command completion of
                  None \<Rightarrow> []
                | Some c \<Rightarrow>
                    [ExecuteCommand (command_id c)
                       (case arguments c of Some a \<Rightarrow> a | None \<Rightarrow> [])]
                    @ (if commandFulfilled env (command_id c)
                            (case arguments c of Some a \<Rightarrow> a | None \<Rightarrow> [])
                       then [] else [OnUnexpectedExternalError])
                    @ [RemoveRef (list_id (source completion))])\<rparr>)
    \<and> ExecuteEdits ''inlineSuggestion.accept'' ops \<in> set pre
    \<and> list_all (\<lambda>e. \<not> isCommandCall e) pre"
proof (cases "snippetInfo completion")
  case None
  let ?ops = "map (\<lambda>e. replaceMove (edit_range e) (edit_text e)) (edits s)
                @ additionalTextEdits completion"
  let ?pre = "[PushUndoStop, ExecuteEdits ''inlineSuggestion.accept'' ?ops,
               SetSelections (editorSelections s) ''inlineCompletionAccept'']"
  show ?thesis
  proof (cases "ic_command completion")
    case n2: None
    show ?thesis
      apply (rule exI [of _ ?pre])
      apply (rule exI [of _ ?ops])
      using ed st c None n2
      by (simp add: accept_def settle_def acceptStart_def acceptFinish_def emit_def Let_def)
  next
    case (Some cmd)
    show ?thesis
      apply (rule exI [of _ "?pre @ [AddRef (list_id (source completion))]"])
      apply (rule exI [of _ ?ops])
      using ed st c None Some
      by (simp add: accept_def settle_def acceptStart_def acceptFinish_def emit_def Let_def)
  qed
next
  case (Some si)
  note s1 = Some
  let ?ops = "replaceMove (ic_range completion) [] # additionalTextEdits completion"
  let ?pre = "[PushUndoStop, ExecuteEdits ''inlineSuggestion.accept'' ?ops,
               SetPosition (getStartPosition (snippet_range si)) ''inlineCompletionAccept'']
               @ (if hasSnippetController ed then [SnippetInsert (snippet si)] else [])"
  show ?thesis
  proof (cases "ic_command completion")
    case None
    show ?thesis
      apply (rule exI [of _ ?pre])
      apply (rule exI [of _ ?ops])
      using ed st c None s1
      by (simp add: accept_def settle_def acceptStart_def acceptFinish_def emit_def Let_def)
  next
    case (Some cmd)
    show ?thesis
      apply (rule exI [of _ "?pre @ [AddRef (list_id (source completion))]"])
      apply (rule exI [of _ ?ops])
      using ed st c Some s1
      by (simp add: accept_def settle_def acceptStart_def acceptFinish_def emit_def Let_def)
  qed
qed

text \<open>
  The theorem on a candidate whose command fails: the failure is reported after the reset,
  and the call returns normally.
\<close>

theorem accept_resets_before_command_witness:
  "accept (hello_env 0 False) (hello_editor 0)
     (Some (hello_state 0 (Some \<lparr>command_id = js ''cmd'', arguments = Some [js ''arg'']\<rparr>)))
     active =
   (None,
    active\<lparr>isActive := False,
           trace :=
             [PushUndoStop,
              ExecuteEdits ''inlineSuggestion.accept''
                [replaceMove (fromPositions (Position 1 1) (Position 1 1)) (js ''hello world'')],
              SetSelections [cursorAt 1 12] ''inlineCompletionAccept'',
              AddRef 7]
             @ [Transaction [SourceClear, IsActiveSet False]]
             @ [ExecuteCommand (js ''cmd'') [js ''arg''], OnUnexpectedExternalError,
                RemoveRef 7]\<rparr>)"
proof -
  let ?cmd = "Some \<lparr>command_id = js ''cmd'', arguments = Some [js ''arg'']\<rparr>"
  let ?g = "text_ghost (js ''hello world'') 0"
  have ed: "getModel (hello_editor 0) = Some (model_id (textModel (hello_env 0 False)))"
    by (simp add: input_defs)
  have pg: "primaryGhostText (hello_state 0 ?cmd) = Some ?g"
    by (simp add: hello_state_def text_state_def)
  have ne: "\<not> isEmpty ?g"
    by (simp add: text_ghost_def)
  have ic: "inlineCompletion (hello_state 0 ?cmd)
              = Some \<lparr>semanticId = js ''hello world'', toInlineCompletion = hello_item 0 ?cmd\<rparr>"
    by (simp add: hello_state_def text_state_def hello_item_def)
  from accept_resets_before_command [OF ed refl pg ne ic refl, of active]
  obtain pre where
    "accept (hello_env 0 False) (hello_editor 0) (Some (hello_state 0 ?cmd)) active =
       (None,
        active\<lparr>isActive := False,
               trace := trace active @ pre @ [Transaction [SourceClear, IsActiveSet False]]
                 @ [ExecuteCommand (js ''cmd'') [js ''arg''], OnUnexpectedExternalError,
                    RemoveRef 7]\<rparr>)"
    by (auto simp: hello_item_def text_item_def hello_env_def text_env_def)
  moreover have
    "trace (snd (accept (hello_env 0 False) (hello_editor 0) (Some (hello_state 0 ?cmd)) active))
      = [PushUndoStop,
         ExecuteEdits ''inlineSuggestion.accept''
           [replaceMove (fromPositions (Position 1 1) (Position 1 1)) (js ''hello world'')],
         SetSelections [cursorAt 1 12] ''inlineCompletionAccept'',
         AddRef 7]
        @ [Transaction [SourceClear, IsActiveSet False]]
        @ [ExecuteCommand (js ''cmd'') [js ''arg''], OnUnexpectedExternalError, RemoveRef 7]"
    by (simp add: accept_defs position_defs input_defs Let_def)
  ultimately show ?thesis by (simp add: active_def)
qed

text \<open>
  C7. On an editor whose attached model is not the text model of this model, \<^verbatim>\<open>accept\<close>,
  \<^verbatim>\<open>acceptNextWord\<close> and \<^verbatim>\<open>acceptNextLine\<close> end with a \<open>BugIndicatingError\<close>,
  whatever the state is; no field of the model has changed, no call has been made and no
  command is pending. The error is the result of the call: nothing catches it and nothing
  is retried.
\<close>

theorem accept_other_document:
  assumes "getModel ed \<noteq> Some (model_id (textModel env))"
  shows "accept env ed st m = (Some BugIndicatingError, m)
       \<and> acceptNextWord env ed st m = (Some BugIndicatingError, m, None)
       \<and> acceptNextLine env ed st m = (Some BugIndicatingError, m, None)"
  using assms
  by (simp add: accept_def settle_def acceptStart_def acceptNext_def acceptNextWord_def
      acceptNextLine_def)

text \<open>The theorem on an editor that shows another document.\<close>

theorem accept_other_document_witness:
  "accept (hello_env 0 True) other_editor (Some (hello_state 0 None)) active
     = (Some BugIndicatingError, active)
   \<and> acceptNextWord (hello_env 0 True) other_editor (Some (hello_state 0 None)) active
     = (Some BugIndicatingError, active, None)
   \<and> acceptNextLine (hello_env 0 True) other_editor (Some (hello_state 0 None)) active
     = (Some BugIndicatingError, active, None)"
proof -
  have "getModel other_editor \<noteq> Some (model_id (textModel (hello_env 0 True)))"
    by (simp add: input_defs)
  from accept_other_document [OF this] show ?thesis by simp
qed

subsection \<open>Nothing to accept\<close>

text \<open>
  On the editor of its own text model, with no state, or with a primary ghost text that is
  empty, or with one and no inline completion, the three methods return normally with the
  model as it was, and no command is pending.
\<close>

lemma accept_returns_silently:
  assumes "getModel ed = Some (model_id (textModel env))"
    and "case st of None \<Rightarrow> True
         | Some s \<Rightarrow> (case primaryGhostText s of
                        None \<Rightarrow> False
                      | Some g \<Rightarrow> isEmpty g \<or> inlineCompletion s = None)"
  shows "accept env ed st m = (None, m)
       \<and> acceptNextWord env ed st m = (None, m, None)
       \<and> acceptNextLine env ed st m = (None, m, None)"
  using assms
  by (auto simp: accept_def settle_def acceptStart_def acceptNext_def acceptNextWord_def
      acceptNextLine_def split: option.splits)

text \<open>With a state that has no primary ghost text, the guard of the three methods throws.\<close>

lemma accept_without_ghost_text:
  assumes "getModel ed = Some (model_id (textModel env))"
    and "st = Some s" "primaryGhostText s = None"
  shows "accept env ed st m = (Some TypeError, m)
       \<and> acceptNextWord env ed st m = (Some TypeError, m, None)
       \<and> acceptNextLine env ed st m = (Some TypeError, m, None)"
  using assms
  by (simp add: accept_def settle_def acceptStart_def acceptNext_def acceptNextWord_def
      acceptNextLine_def)

text \<open>
  Every state that the model derives with no inline completion has no edit and no primary
  ghost text: the branch with a suggest item is the only one that leaves the completion
  undefined, and there the ghost texts are those of the edits.
\<close>

lemma state_without_completion:
  assumes "state_of env rd m = (Inr (Some s), m')" and "inlineCompletion s = None"
  shows "primaryGhostText s = None \<and> ghostTexts s = [] \<and> edits s = []"
proof (cases "selectedSuggestItem rd")
  case None
  with assms show ?thesis
    by (auto simp: state_of_def Let_def split: if_splits prod.splits option.splits sum.splits)
next
  case (Some item)
  obtain a m1 where a: "computeAugmentedCompletion rd (removeCommonPrefix rd item None) m = (a, m1)"
    by (cases "computeAugmentedCompletion rd (removeCommonPrefix rd item None) m")
  show ?thesis
  proof (cases a)
    case None
    with assms Some a show ?thesis
      by (auto simp: state_of_def Let_def at_index_def split: if_splits)
  next
    case (Some p)
    with assms \<open>selectedSuggestItem rd = Some item\<close> a show ?thesis
      by (auto simp: state_of_def Let_def split: if_splits prod.splits sum.splits)
  qed
qed

text \<open>
  C9 fails on the code in its third case. With a suggest item selected, the preview of
  suggestions enabled and no inline completion to augment it, the model derives a state
  with no inline completion, no edit and no ghost text; its \<^verbatim>\<open>primaryGhostText\<close> is
  \<^verbatim>\<open>ghostTexts[0]\<close> of the empty list, \<^verbatim>\<open>undefined\<close>. On that state the guard
  \<^verbatim>\<open>state.primaryGhostText.isEmpty()\<close> of \<^verbatim>\<open>accept\<close>, \<^verbatim>\<open>acceptNextWord\<close> and
  \<^verbatim>\<open>acceptNextLine\<close> throws a \<open>TypeError\<close> before \<^verbatim>\<open>!state.inlineCompletion\<close> is
  reached: the call is not a silent return. The model is as it was and no call has been
  made.
\<close>

theorem accept_without_completion_throws:
  "state_of (hello_env 0 True)
     (text_reads (Some (SingleTextEdit (fromPositions (Position 1 1) (Position 1 1)) (js ''help'')))
        [])
     active =
   (Inr (Some \<lparr>suggestItem =
                 Some (SingleTextEdit (fromPositions (Position 1 1) (Position 1 1)) (js ''help'')),
               inlineCompletion = None, primaryGhostText = None, ghostTexts = [],
               edits = [], editorSelections = []\<rparr>), active)
   \<and> accept (hello_env 0 True) (hello_editor 0)
       (Some \<lparr>suggestItem =
                Some (SingleTextEdit (fromPositions (Position 1 1) (Position 1 1)) (js ''help'')),
              inlineCompletion = None, primaryGhostText = None, ghostTexts = [],
              edits = [], editorSelections = []\<rparr>) active
     = (Some TypeError, active)
   \<and> acceptNextWord (hello_env 0 True) (hello_editor 0)
       (Some \<lparr>suggestItem =
                Some (SingleTextEdit (fromPositions (Position 1 1) (Position 1 1)) (js ''help'')),
              inlineCompletion = None, primaryGhostText = None, ghostTexts = [],
              edits = [], editorSelections = []\<rparr>) active
     = (Some TypeError, active, None)
   \<and> acceptNextLine (hello_env 0 True) (hello_editor 0)
       (Some \<lparr>suggestItem =
                Some (SingleTextEdit (fromPositions (Position 1 1) (Position 1 1)) (js ''help'')),
              inlineCompletion = None, primaryGhostText = None, ghostTexts = [],
              edits = [], editorSelections = []\<rparr>) active
     = (Some TypeError, active, None)"
proof -
  let ?item = "SingleTextEdit (fromPositions (Position 1 1) (Position 1 1)) (js ''help'')"
  let ?s = "\<lparr>suggestItem = Some ?item, inlineCompletion = None, primaryGhostText = None,
             ghostTexts = [], edits = [], editorSelections = []\<rparr>"
  have derived: "state_of (hello_env 0 True) (text_reads (Some ?item) []) active
                   = (Inr (Some ?s), active)"
    by (simp add: state_of_def computeAugmentedCompletion_def selectedInlineCompletion_def
        selectedInlineCompletionIndex_def at_index_def text_reads_def active_def Let_def)
  have ed: "getModel (hello_editor 0) = Some (model_id (textModel (hello_env 0 True)))"
    by (simp add: input_defs)
  have none: "primaryGhostText ?s = None" by simp
  show ?thesis
    using derived accept_without_ghost_text [OF ed refl none, of active] by simp
qed

text \<open>
  The states of the other sessions of this file are derived by the model too: the one where
  \<open>he\<close> is typed and the candidate \<open>hello world\<close> is selected.
\<close>

lemma hello_state_derived:
  "state_of (hello_env 2 True)
     (text_reads None
        [\<lparr>semanticId = js ''hello world'', toInlineCompletion = hello_item 2 None\<rparr>])
     active
   = (Inr (Some (hello_state 2 None)), active)"
  by (simp add: state_of_def selectedInlineCompletion_def selectedInlineCompletionIndex_def
      at_index_def getEdits_defs position_defs input_defs Let_def)

subsection \<open>The boundary of the next word\<close>






subsection \<open>Partial accept and the full accept\<close>



end
